theory Spec2Isabelle
  imports Main
begin

section \<open>JavaScript values and their truthiness\<close>

text \<open>
  The handlers of \<^verbatim>\<open>controllers/posts.js\<close> branch on the truthiness of what they hold:
  \<^verbatim>\<open>if (!authToken)\<close>, \<open>if (!decodedUser.id)\<close>, \<open>if (updated)\<close>, \<open>if (count)\<close>.
  Truthiness is JavaScript's: \<open>undefined\<close>, \<open>null\<close>, the number \<open>0\<close> and the empty
  string are falsy; every array and every object is truthy, an empty array included.
\<close>

datatype js_value =
    JS_undefined
  | JS_null
  | JS_number int
  | JS_string string
  | JS_array "js_value list"
  | JS_object

fun truthy :: "js_value \<Rightarrow> bool" where
  "truthy JS_undefined = False"
| "truthy JS_null = False"
| "truthy (JS_number n) = (n \<noteq> 0)"
| "truthy (JS_string s) = (s \<noteq> [])"
| "truthy (JS_array xs) = True"
| "truthy JS_object = True"

section \<open>Data model\<close>

type_synonym ident = nat

text \<open>
  A row of the Post Store. \<open>author\<close> is \<open>None\<close> when the row was created from an identity
  whose \<open>id\<close> is \<open>undefined\<close>; \<open>parent\<close> is \<open>None\<close> for \<open>null\<close>.
\<close>

record post =
  post_id :: ident
  text_content :: string
  author :: "ident option"
  parent :: "ident option"

text \<open>A row of the Share Store, the join table behind \<^verbatim>\<open>models.sharedPost\<close>.\<close>

record sharedPost =
  postId :: ident
  userId :: "ident option"

record db =
  posts :: "post list"
  sharedPosts :: "sharedPost list"
  next_post_id :: ident

text \<open>The identity the Token Codec decodes; \<open>user_id = None\<close> is an identity with no \<open>id\<close>.\<close>

record user =
  user_id :: "ident option"

fun js_ident :: "ident option \<Rightarrow> js_value" where
  "js_ident None = JS_undefined"
| "js_ident (Some n) = JS_number (int n)"

record body =
  body_text_content :: string
  body_parent :: "ident option"

text \<open>
  A request: the \<open>Authorization\<close> header (\<open>None\<close> when the header is absent), the path
  parameter \<open>:id\<close> and the body.
\<close>

record request =
  authorization :: "string option"
  params_id :: ident
  req_body :: body

definition req_get_Authorization :: "request \<Rightarrow> js_value" where
  "req_get_Authorization req =
     (case authorization req of None \<Rightarrow> JS_undefined | Some s \<Rightarrow> JS_string s)"

datatype js_error = ERR_HTTP_HEADERS_SENT

datatype payload =
    Error_message string
  | Text string
  | Post_dto post
  | Error_object js_error

record response =
  status :: nat
  payload :: payload

text \<open>The store calls a handler issues, in the order it issues them.\<close>

datatype store_op =
    Posts_findByPk ident
  | Posts_create string "ident option" "ident option"
  | Posts_update ident string
  | Posts_destroy ident
  | SharedPost_create ident "ident option"
  | SharedPost_destroy ident "ident option"

fun is_posts_op :: "store_op \<Rightarrow> bool" where
  "is_posts_op (SharedPost_create p u) = False"
| "is_posts_op (SharedPost_destroy p u) = False"
| "is_posts_op other = True"

fun is_sharedPost_op :: "store_op \<Rightarrow> bool" where
  "is_sharedPost_op (SharedPost_create p u) = True"
| "is_sharedPost_op (SharedPost_destroy p u) = True"
| "is_sharedPost_op other = False"

text \<open>
  The state one request runs in: the store, the response the client has received
  (\<open>None\<close> while nothing has been sent), the store calls issued so far, and the error
  the handler's promise rejected with, if its \<open>catch\<close> block threw in turn.
\<close>

record world =
  store :: db
  sent :: "response option"
  ops :: "store_op list"
  unhandled :: "js_error option"

definition incoming :: "db \<Rightarrow> world" where
  "incoming d = \<lparr>store = d, sent = None, ops = [], unhandled = None\<rparr>"

section \<open>The collaborators the handlers call\<close>

text \<open>
  Modelled from the spec: \<^verbatim>\<open>database/models\<close> is not among the sources. The spec gives a
  table of posts keyed by identifier, with an author and a nullable parent, and a join
  table of \<open>(postId, userId)\<close> pairs, behind an object-relational mapper. The calls the
  handlers make (\<open>findByPk\<close>, \<open>create\<close>, \<open>update\<close> with \<open>returning\<close> and \<open>where\<close>,
  \<open>destroy\<close> with \<open>where\<close>) are Sequelize's, and resolve as Sequelize's do:
  \<open>findByPk\<close> to the row with that key or to \<open>null\<close>, and to \<open>null\<close> for a \<open>null\<close> key
  without a read; \<open>create\<close> to the inserted row, whose \<open>id\<close> the store generates;
  \<open>update\<close> to an array, \<open>[affectedCount, affectedRows]\<close> (\<open>[affectedCount]\<close> where the
  database returns no rows); \<open>destroy\<close> to the number of rows it deleted.
  No uniqueness or not-null constraint is modelled: the spec names none.
\<close>

definition models_posts_findByPk :: "ident option \<Rightarrow> world \<Rightarrow> post option \<times> world" where
  "models_posts_findByPk k w =
     (case k of
        None \<Rightarrow> (None, w)
      | Some i \<Rightarrow>
          (find (\<lambda>p. post_id p = i) (posts (store w)),
           w\<lparr>ops := ops w @ [Posts_findByPk i]\<rparr>))"

definition models_posts_create ::
  "string \<Rightarrow> ident option \<Rightarrow> ident option \<Rightarrow> world \<Rightarrow> post \<times> world" where
  "models_posts_create t a p w =
     (let d = store w;
          row = \<lparr>post_id = next_post_id d, text_content = t, author = a, parent = p\<rparr>
      in (row,
          w\<lparr>store := d\<lparr>posts := posts d @ [row], next_post_id := Suc (next_post_id d)\<rparr>,
            ops := ops w @ [Posts_create t a p]\<rparr>))"

definition models_posts_update :: "string \<Rightarrow> ident \<Rightarrow> world \<Rightarrow> (nat \<times> post list) \<times> world" where
  "models_posts_update t i w =
     (let d = store w;
          rows = map (\<lambda>p. if post_id p = i then p\<lparr>text_content := t\<rparr> else p) (posts d);
          affected = filter (\<lambda>p. post_id p = i) rows
      in ((length affected, affected),
          w\<lparr>store := d\<lparr>posts := rows\<rparr>, ops := ops w @ [Posts_update i t]\<rparr>))"

text \<open>The value \<open>update\<close> resolves to, as the handler's \<open>if (updated)\<close> sees it.\<close>

fun js_update_result :: "nat \<times> post list \<Rightarrow> js_value" where
  "js_update_result (n, rows) = JS_array [JS_number (int n), JS_array (map (\<lambda>r. JS_object) rows)]"

definition models_posts_destroy :: "ident \<Rightarrow> world \<Rightarrow> nat \<times> world" where
  "models_posts_destroy i w =
     (let d = store w
      in (length (filter (\<lambda>p. post_id p = i) (posts d)),
          w\<lparr>store := d\<lparr>posts := filter (\<lambda>p. post_id p \<noteq> i) (posts d)\<rparr>,
            ops := ops w @ [Posts_destroy i]\<rparr>))"

definition models_sharedPost_create :: "ident \<Rightarrow> ident option \<Rightarrow> world \<Rightarrow> sharedPost \<times> world" where
  "models_sharedPost_create p u w =
     (let d = store w; row = \<lparr>postId = p, userId = u\<rparr>
      in (row,
          w\<lparr>store := d\<lparr>sharedPosts := sharedPosts d @ [row]\<rparr>,
            ops := ops w @ [SharedPost_create p u]\<rparr>))"

definition shared_by :: "ident \<Rightarrow> ident option \<Rightarrow> sharedPost \<Rightarrow> bool" where
  "shared_by p u r = (postId r = p \<and> userId r = u)"

definition models_sharedPost_destroy :: "ident \<Rightarrow> ident option \<Rightarrow> world \<Rightarrow> nat \<times> world" where
  "models_sharedPost_destroy p u w =
     (let d = store w
      in (length (filter (shared_by p u) (sharedPosts d)),
          w\<lparr>store := d\<lparr>sharedPosts := filter (\<lambda>r. \<not> shared_by p u r) (sharedPosts d)\<rparr>,
            ops := ops w @ [SharedPost_destroy p u]\<rparr>))"

text \<open>
  Modelled from the spec: \<^verbatim>\<open>dto/posts\<close> is not among the sources. The DTO is derived
  one-to-one from the stored post.
\<close>

definition convertToPostDto :: "post \<Rightarrow> payload" where
  "convertToPostDto p = Post_dto p"

text \<open>
  \<^verbatim>\<open>res.status(code).send(body)\<close>. The first call answers the client. A second call on
  the same response throws: the headers have been sent.
\<close>

definition send :: "nat \<Rightarrow> payload \<Rightarrow> world \<Rightarrow> (js_error \<times> world) + world" where
  "send code b w =
     (case sent w of
        None \<Rightarrow> Inr (w\<lparr>sent := Some \<lparr>status = code, payload = b\<rparr>\<rparr>)
      | Some r \<Rightarrow> Inl (ERR_HTTP_HEADERS_SENT, w))"

text \<open>
  \<^verbatim>\<open>try { ... } catch (error) { res.status(500).send(error) }\<close>: what is thrown inside
  the block is answered with 500; when that \<open>send\<close> throws as well, nothing catches it.
\<close>

definition catch_500 :: "(js_error \<times> world) + world \<Rightarrow> world" where
  "catch_500 r =
     (case r of
        Inr w \<Rightarrow> w
      | Inl (e, w) \<Rightarrow>
          (case send 500 (Error_object e) w of
             Inr w' \<Rightarrow> w'
           | Inl (e', w') \<Rightarrow> w'\<lparr>unhandled := Some e'\<rparr>))"

text \<open>One statement after another: a throw in the first skips the second.\<close>

definition and_then ::
  "(js_error \<times> world) + world \<Rightarrow> (world \<Rightarrow> (js_error \<times> world) + world) \<Rightarrow>
   (js_error \<times> world) + world" where
  "and_then r k = (case r of Inl x \<Rightarrow> Inl x | Inr w \<Rightarrow> k w)"

text \<open>
  A handler is suspended at each \<open>await\<close>. \<open>env\<close> is what other requests did to the store
  between the handler's first store call and its second; \<open>\<lambda>d. d\<close> is a request that
  runs alone.
\<close>

definition resume :: "(db \<Rightarrow> db) \<Rightarrow> world \<Rightarrow> world" where
  "resume env w = w\<lparr>store := env (store w)\<rparr>"

section \<open>The handlers\<close>

text \<open>
  \<open>extractUser\<close> is the Token Codec, \<^verbatim>\<open>Authentication.extractUser\<close>, taken as a
  parameter. Each handler starts on a fresh response and returns the world it leaves.
  A row that \<open>findByPk\<close> or \<open>create\<close> resolves to is an object, and truthy:
  \<open>if (!post)\<close> is the case \<open>None\<close>, and \<open>if (postShared)\<close> tests \<open>JS_object\<close>.
\<close>

definition createPost ::
  "(js_value \<Rightarrow> user) \<Rightarrow> (db \<Rightarrow> db) \<Rightarrow> request \<Rightarrow> db \<Rightarrow> world" where
  "createPost extractUser env req d =
     catch_500
       (let w0 = incoming d;
            authToken = req_get_Authorization req;
            body = req_body req
        in if \<not> truthy authToken then
             send 400 (Error_message ''Auth token not provided'') w0
           else
             let decodedUser = extractUser authToken
             in and_then
                  (if \<not> truthy (js_ident (user_id decodedUser))
                   then send 401 (Error_message ''Auth token invalid'') w0
                   else Inr w0)
                  (\<lambda>w1.
                     case models_posts_findByPk (body_parent body) w1 of
                       (parent_row, w2) \<Rightarrow>
                         if parent_row \<noteq> None \<or> body_parent body = None then
                           (case models_posts_create (body_text_content body) (user_id decodedUser)
                                   (body_parent body) (resume env w2) of
                              (post, w3) \<Rightarrow> send 201 (convertToPostDto post) w3)
                         else
                           send 404 (Error_message ''Parent with that id does not exist.'') w2))"

definition getPostById :: "request \<Rightarrow> db \<Rightarrow> world" where
  "getPostById req d =
     catch_500
       (case models_posts_findByPk (Some (params_id req)) (incoming d) of
          (post, w1) \<Rightarrow>
            (case post of
               Some p \<Rightarrow> send 200 (convertToPostDto p) w1
             | None \<Rightarrow> send 404 (Text ''ID not found.'') w1))"

definition modifyPostById ::
  "(js_value \<Rightarrow> user) \<Rightarrow> (db \<Rightarrow> db) \<Rightarrow> request \<Rightarrow> db \<Rightarrow> world" where
  "modifyPostById extractUser env req d =
     catch_500
       (let w0 = incoming d;
            authToken = req_get_Authorization req
        in if \<not> truthy authToken then
             send 400 (Error_message ''Auth token not provided'') w0
           else
             let decodedUser = extractUser authToken
             in if \<not> truthy (js_ident (user_id decodedUser)) then
                  send 401 (Error_message ''Auth token invalid'') w0
                else
                  case models_posts_findByPk (Some (params_id req)) w0 of
                    (post, w1) \<Rightarrow>
                      (case post of
                         None \<Rightarrow> send 404 (Text ''Invalid message ID.'') w1
                       | Some p \<Rightarrow>
                           if author p = user_id decodedUser then
                             (case models_posts_update (body_text_content (req_body req))
                                     (params_id req) (resume env w1) of
                                (updated, w2) \<Rightarrow>
                                  if truthy (js_update_result updated) then
                                    send 200 (Text ''The message has been updated.'') w2
                                  else
                                    send 500 (Text ''Failed to update the post.'') w2)
                           else
                             send 403 (Text ''Invalid author ID.'') w1))"

definition deletePostById ::
  "(js_value \<Rightarrow> user) \<Rightarrow> (db \<Rightarrow> db) \<Rightarrow> request \<Rightarrow> db \<Rightarrow> world" where
  "deletePostById extractUser env req d =
     catch_500
       (let w0 = incoming d;
            authToken = req_get_Authorization req
        in if \<not> truthy authToken then
             send 400 (Error_message ''Auth token not provided'') w0
           else
             let decodedUser = extractUser authToken
             in if \<not> truthy (js_ident (user_id decodedUser)) then
                  send 401 (Error_message ''Auth token invalid'') w0
                else
                  case models_posts_findByPk (Some (params_id req)) w0 of
                    (post, w1) \<Rightarrow>
                      (case post of
                         None \<Rightarrow> send 404 (Text ''Invalid post ID.'') w1
                       | Some p \<Rightarrow>
                           if author p = user_id decodedUser then
                             (case models_posts_destroy (params_id req) (resume env w1) of
                                (count, w2) \<Rightarrow>
                                  if count \<noteq> 0 then
                                    send 200 (Text ''The post has been deleted.'') w2
                                  else
                                    send 500 (Text ''Failed to destroy the post.'') w2)
                           else
                             send 403 (Text ''Invalid author ID.'') w1))"

definition sharePostById ::
  "(js_value \<Rightarrow> user) \<Rightarrow> (db \<Rightarrow> db) \<Rightarrow> request \<Rightarrow> db \<Rightarrow> world" where
  "sharePostById extractUser env req d =
     catch_500
       (let w0 = incoming d;
            authToken = req_get_Authorization req
        in if \<not> truthy authToken then
             send 400 (Error_message ''Auth token not provided'') w0
           else
             let decodedUser = extractUser authToken
             in and_then
                  (if \<not> truthy (js_ident (user_id decodedUser))
                   then send 401 (Error_message ''Auth token invalid'') w0
                   else Inr w0)
                  (\<lambda>w1.
                     case models_posts_findByPk (Some (params_id req)) w1 of
                       (targetPost, w2) \<Rightarrow>
                         (case targetPost of
                            Some p \<Rightarrow>
                              (case models_sharedPost_create (post_id p) (user_id decodedUser)
                                      (resume env w2) of
                                 (postShared, w3) \<Rightarrow>
                                   if truthy JS_object then
                                     send 201 (Text ''Post shared.'') w3
                                   else
                                     send 500 (Text ''Failed to share the post.'') w3)
                          | None \<Rightarrow>
                              send 404
                                (Error_message ''Parent with that id does not exist.'') w2)))"

definition unsharePostById :: "(js_value \<Rightarrow> user) \<Rightarrow> request \<Rightarrow> db \<Rightarrow> world" where
  "unsharePostById extractUser req d =
     catch_500
       (let w0 = incoming d;
            authToken = req_get_Authorization req
        in if \<not> truthy authToken then
             send 400 (Error_message ''Auth token not provided'') w0
           else
             let decodedUser = extractUser authToken
             in if \<not> truthy (js_ident (user_id decodedUser)) then
                  send 401 (Error_message ''Auth token invalid'') w0
                else
                  case models_sharedPost_destroy (params_id req) (user_id decodedUser) w0 of
                    (count, w1) \<Rightarrow>
                      if truthy (JS_number (int count)) then
                        send 200 (Text ''The post has been unshared.'') w1
                      else
                        send 404 (Text ''The post was not shared by the user before.'') w1)"

text \<open>
  A request is authenticated when it carries a credential and the credential decodes to
  an identity with a usable \<open>id\<close>; \<open>caller\<close> is that \<open>id\<close>.
\<close>

definition authenticated :: "(js_value \<Rightarrow> user) \<Rightarrow> request \<Rightarrow> bool" where
  "authenticated extractUser req =
     (truthy (req_get_Authorization req) \<and>
      truthy (js_ident (user_id (extractUser (req_get_Authorization req)))))"

definition caller :: "(js_value \<Rightarrow> user) \<Rightarrow> request \<Rightarrow> ident option" where
  "caller extractUser req = user_id (extractUser (req_get_Authorization req))"

section \<open>Concrete inputs\<close>

text \<open>
  A Token Codec for the examples: the token \<open>alice\<close> decodes to user 5, \<open>bob\<close> to user 6,
  and every other credential to an identity with no \<open>id\<close>.
\<close>

definition codec :: "js_value \<Rightarrow> user" where
  "codec t =
     (if t = JS_string ''alice'' then \<lparr>user_id = Some 5\<rparr>
      else if t = JS_string ''bob'' then \<lparr>user_id = Some 6\<rparr>
      else \<lparr>user_id = None\<rparr>)"

text \<open>A store with one post, number 1, written by user 5, and no share.\<close>

definition db1 :: db where
  "db1 =
     \<lparr>posts = [\<lparr>post_id = 1, text_content = ''first'', author = Some 5, parent = None\<rparr>],
      sharedPosts = [],
      next_post_id = 2\<rparr>"

text \<open>The same store after user 6 has shared post 1.\<close>

definition db2 :: db where
  "db2 = db1\<lparr>sharedPosts := [\<lparr>postId = 1, userId = Some 6\<rparr>]\<rparr>"

text \<open>A request on post 1 with the given credential, text and parent.\<close>

definition request_on_1 :: "string option \<Rightarrow> string \<Rightarrow> ident option \<Rightarrow> request" where
  "request_on_1 token t p =
     \<lparr>authorization = token, params_id = 1,
      req_body = \<lparr>body_text_content = t, body_parent = p\<rparr>\<rparr>"

text \<open>Another request deleting post 1 while this one is suspended.\<close>

definition concurrent_delete_1 :: "db \<Rightarrow> db" where
  "concurrent_delete_1 d = d\<lparr>posts := filter (\<lambda>p. post_id p \<noteq> 1) (posts d)\<rparr>"

text \<open>The empty store.\<close>

definition db0 :: db where
  "db0 = \<lparr>posts = [], sharedPosts = [], next_post_id = 1\<rparr>"

text \<open>The columns of a post that no handler is to write after its creation.\<close>

definition columns :: "post \<Rightarrow> ident \<times> ident option \<times> ident option" where
  "columns p = (post_id p, author p, parent p)"

section \<open>Unfolding the model\<close>

lemmas store_defs =
  models_posts_findByPk_def models_posts_create_def models_posts_update_def
  models_posts_destroy_def models_sharedPost_create_def models_sharedPost_destroy_def

lemmas express_defs =
  incoming_def send_def catch_500_def and_then_def resume_def convertToPostDto_def
  req_get_Authorization_def

lemmas example_defs = codec_def db1_def db2_def request_on_1_def concurrent_delete_1_def

section \<open>Invalid credentials\<close>

text \<open>
  \<open>modifyPostById\<close>, \<open>deletePostById\<close> and \<open>unsharePostById\<close> put the rest of the handler
  in the \<open>else\<close> of the 401 answer: on an identity with no usable \<open>id\<close> they answer 401 and
  issue no store call.
\<close>

lemma invalid_credential_stops_modify_delete_unshare:
  assumes "truthy (req_get_Authorization req)"
      and "\<not> truthy (js_ident (user_id (extractUser (req_get_Authorization req))))"
  shows "modifyPostById extractUser env req d =
           \<lparr>store = d, sent = Some \<lparr>status = 401, payload = Error_message ''Auth token invalid''\<rparr>,
            ops = [], unhandled = None\<rparr>"
    and "deletePostById extractUser env req d =
           \<lparr>store = d, sent = Some \<lparr>status = 401, payload = Error_message ''Auth token invalid''\<rparr>,
            ops = [], unhandled = None\<rparr>"
    and "unsharePostById extractUser req d =
           \<lparr>store = d, sent = Some \<lparr>status = 401, payload = Error_message ''Auth token invalid''\<rparr>,
            ops = [], unhandled = None\<rparr>"
  using assms
  by (simp_all add: modifyPostById_def deletePostById_def unsharePostById_def
      incoming_def send_def catch_500_def Let_def)

text \<open>
  Claim C1. Every operation that requires authentication answers 401 on a credential
  that decodes to an identity with no usable \<open>id\<close>, and touches the store no more.
  \<open>createPost\<close> and \<open>sharePostById\<close> do not: their 401 answer has no \<open>else\<close> and no
  \<open>return\<close>, so the handler runs on. With the credential \<open>garbage\<close>, which decodes to an
  identity with no \<open>id\<close>, \<open>createPost\<close> answers 401, then reads post 1 as the parent and
  inserts a post whose author is \<open>undefined\<close>; \<open>sharePostById\<close> answers 401, then reads
  post 1 and inserts a share whose user is \<open>undefined\<close>. The 201 answer that follows
  throws, and so does the 500 answer of the \<open>catch\<close> block.
\<close>

theorem invalid_credential_reaches_store:
  "createPost codec (\<lambda>d. d) (request_on_1 (Some ''garbage'') ''hello'' (Some 1)) db1 =
     \<lparr>store =
        \<lparr>posts =
           [\<lparr>post_id = 1, text_content = ''first'', author = Some 5, parent = None\<rparr>,
            \<lparr>post_id = 2, text_content = ''hello'', author = None, parent = Some 1\<rparr>],
         sharedPosts = [],
         next_post_id = 3\<rparr>,
      sent = Some \<lparr>status = 401, payload = Error_message ''Auth token invalid''\<rparr>,
      ops = [Posts_findByPk 1, Posts_create ''hello'' None (Some 1)],
      unhandled = Some ERR_HTTP_HEADERS_SENT\<rparr>
   \<and> sharePostById codec (\<lambda>d. d) (request_on_1 (Some ''garbage'') ''hello'' None) db1 =
     \<lparr>store =
        \<lparr>posts = [\<lparr>post_id = 1, text_content = ''first'', author = Some 5, parent = None\<rparr>],
         sharedPosts = [\<lparr>postId = 1, userId = None\<rparr>],
         next_post_id = 2\<rparr>,
      sent = Some \<lparr>status = 401, payload = Error_message ''Auth token invalid''\<rparr>,
      ops = [Posts_findByPk 1, SharedPost_create 1 None],
      unhandled = Some ERR_HTTP_HEADERS_SENT\<rparr>"
  by (simp add: createPost_def sharePostById_def example_defs store_defs express_defs Let_def)

theorem invalid_credential_reaches_store_witness:
  "ops (createPost codec (\<lambda>d. d) (request_on_1 (Some ''garbage'') ''hello'' (Some 1)) db1) =
     [Posts_findByPk 1, Posts_create ''hello'' None (Some 1)]
   \<and> ops (sharePostById codec (\<lambda>d. d) (request_on_1 (Some ''garbage'') ''hello'' None) db1) =
     [Posts_findByPk 1, SharedPost_create 1 None]"
  using invalid_credential_reaches_store by simp

section \<open>Ownership\<close>

text \<open>
  Claim C2. For every existing post \<open>P\<close> and every authenticated caller other than the
  author of \<open>P\<close>, \<open>modifyPostById\<close> and \<open>deletePostById\<close> answer 403 and leave the store as
  it was: the only store call is the read of \<open>P\<close>.
\<close>

theorem not_author_forbidden:
  assumes "authenticated extractUser req"
      and "find (\<lambda>p. post_id p = params_id req) (posts d) = Some P"
      and "author P \<noteq> caller extractUser req"
  shows "modifyPostById extractUser env req d =
           \<lparr>store = d, sent = Some \<lparr>status = 403, payload = Text ''Invalid author ID.''\<rparr>,
            ops = [Posts_findByPk (params_id req)], unhandled = None\<rparr>
       \<and> deletePostById extractUser env req d =
           \<lparr>store = d, sent = Some \<lparr>status = 403, payload = Text ''Invalid author ID.''\<rparr>,
            ops = [Posts_findByPk (params_id req)], unhandled = None\<rparr>"
  using assms
  by (simp add: modifyPostById_def deletePostById_def authenticated_def caller_def
      models_posts_findByPk_def incoming_def send_def catch_500_def Let_def)

theorem not_author_forbidden_witness:
  "modifyPostById codec (\<lambda>d. d) (request_on_1 (Some ''bob'') ''edited'' None) db1 =
     \<lparr>store = db1, sent = Some \<lparr>status = 403, payload = Text ''Invalid author ID.''\<rparr>,
      ops = [Posts_findByPk 1], unhandled = None\<rparr>
   \<and> deletePostById codec (\<lambda>d. d) (request_on_1 (Some ''bob'') ''edited'' None) db1 =
     \<lparr>store = db1, sent = Some \<lparr>status = 403, payload = Text ''Invalid author ID.''\<rparr>,
      ops = [Posts_findByPk 1], unhandled = None\<rparr>"
proof -
  let ?req = "request_on_1 (Some ''bob'') ''edited'' None"
  let ?P = "\<lparr>post_id = 1, text_content = ''first'', author = Some 5, parent = None\<rparr>"
  have auth: "authenticated codec ?req"
    by (simp add: authenticated_def example_defs req_get_Authorization_def)
  have found: "find (\<lambda>p. post_id p = params_id ?req) (posts db1) = Some ?P"
    by (simp add: example_defs)
  have other: "author ?P \<noteq> caller codec ?req"
    by (simp add: caller_def example_defs req_get_Authorization_def)
  have id1: "params_id ?req = 1"
    by (simp add: request_on_1_def)
  show ?thesis
    using not_author_forbidden [OF auth found other, of "\<lambda>d. d"] by (simp add: id1)
qed

section \<open>Creating a post\<close>

text \<open>
  Claim C3. The parent check of \<open>createPost\<close> comes after the two steps on the
  credential. For every create request that carries a credential decoding to a usable
  identity: when the body gives a non-null \<open>parent\<close> that resolves to no post, the answer
  is 404 and no row is inserted; when \<open>parent\<close> is null or absent, or resolves to a post,
  the answer is 201 and one new post is persisted, with \<open>author\<close> the decoded identity's
  \<open>id\<close> and \<open>parent\<close> as given. A dangling \<open>parent\<close> inserts no row whatever the
  credential is.
\<close>

theorem createPost_parent_check:
  "(body_parent (req_body req) = Some k \<and> find (\<lambda>p. post_id p = k) (posts d) = None \<longrightarrow>
      store (createPost extractUser env req d) = d)
 \<and> (authenticated extractUser req \<and>
     body_parent (req_body req) = Some k \<and> find (\<lambda>p. post_id p = k) (posts d) = None \<longrightarrow>
      createPost extractUser env req d =
        \<lparr>store = d,
         sent = Some \<lparr>status = 404,
                      payload = Error_message ''Parent with that id does not exist.''\<rparr>,
         ops = [Posts_findByPk k], unhandled = None\<rparr>)
 \<and> (authenticated extractUser req \<and>
     (body_parent (req_body req) = None \<or>
      (\<exists>P. body_parent (req_body req) = Some k \<and>
           find (\<lambda>p. post_id p = k) (posts d) = Some P)) \<longrightarrow>
      (let row = \<lparr>post_id = next_post_id (env d),
                   text_content = body_text_content (req_body req),
                   author = caller extractUser req,
                   parent = body_parent (req_body req)\<rparr>;
           w = createPost extractUser env req d
       in store w = (env d)\<lparr>posts := posts (env d) @ [row],
                            next_post_id := Suc (next_post_id (env d))\<rparr>
        \<and> sent w = Some \<lparr>status = 201, payload = Post_dto row\<rparr>
        \<and> unhandled w = None))"
proof (intro conjI impI)
  assume "body_parent (req_body req) = Some k \<and> find (\<lambda>p. post_id p = k) (posts d) = None"
  then show "store (createPost extractUser env req d) = d"
    by (simp add: createPost_def store_defs express_defs Let_def)
next
  assume "authenticated extractUser req \<and>
     body_parent (req_body req) = Some k \<and> find (\<lambda>p. post_id p = k) (posts d) = None"
  then show "createPost extractUser env req d =
        \<lparr>store = d,
         sent = Some \<lparr>status = 404,
                      payload = Error_message ''Parent with that id does not exist.''\<rparr>,
         ops = [Posts_findByPk k], unhandled = None\<rparr>"
    by (simp add: createPost_def authenticated_def store_defs express_defs Let_def)
next
  assume "authenticated extractUser req \<and>
     (body_parent (req_body req) = None \<or>
      (\<exists>P. body_parent (req_body req) = Some k \<and>
           find (\<lambda>p. post_id p = k) (posts d) = Some P))"
  then show "let row = \<lparr>post_id = next_post_id (env d),
                   text_content = body_text_content (req_body req),
                   author = caller extractUser req,
                   parent = body_parent (req_body req)\<rparr>;
           w = createPost extractUser env req d
       in store w = (env d)\<lparr>posts := posts (env d) @ [row],
                            next_post_id := Suc (next_post_id (env d))\<rparr>
        \<and> sent w = Some \<lparr>status = 201, payload = Post_dto row\<rparr>
        \<and> unhandled w = None"
    by (auto simp add: createPost_def authenticated_def caller_def store_defs express_defs
        Let_def)
qed

theorem createPost_parent_check_witness:
  "store (createPost codec (\<lambda>d. d) (request_on_1 (Some ''garbage'') ''hello'' (Some 7)) db1) = db1
 \<and> createPost codec (\<lambda>d. d) (request_on_1 (Some ''bob'') ''hello'' (Some 7)) db1 =
      \<lparr>store = db1,
       sent = Some \<lparr>status = 404,
                    payload = Error_message ''Parent with that id does not exist.''\<rparr>,
       ops = [Posts_findByPk 7], unhandled = None\<rparr>
 \<and> store (createPost codec (\<lambda>d. d) (request_on_1 (Some ''bob'') ''reply'' (Some 1)) db1) =
      db1\<lparr>posts := posts db1 @
             [\<lparr>post_id = 2, text_content = ''reply'', author = Some 6, parent = Some 1\<rparr>],
          next_post_id := 3\<rparr>
 \<and> sent (createPost codec (\<lambda>d. d) (request_on_1 (Some ''bob'') ''reply'' (Some 1)) db1) =
      Some \<lparr>status = 201,
            payload = Post_dto \<lparr>post_id = 2, text_content = ''reply'', author = Some 6,
                                parent = Some 1\<rparr>\<rparr>
 \<and> posts (store (createPost codec (\<lambda>d. d) (request_on_1 (Some ''alice'') ''top'' None) db1)) =
      posts db1 @ [\<lparr>post_id = 2, text_content = ''top'', author = Some 5, parent = None\<rparr>]"
proof -
  let ?P = "\<lparr>post_id = 1, text_content = ''first'', author = Some 5, parent = None\<rparr>"
  have bob: "authenticated codec (request_on_1 (Some ''bob'') t p)" for t p
    by (simp add: authenticated_def example_defs req_get_Authorization_def)
  have alice: "authenticated codec (request_on_1 (Some ''alice'') t p)" for t p
    by (simp add: authenticated_def example_defs req_get_Authorization_def)
  have body_p: "body_parent (req_body (request_on_1 c t p)) = p" for c t p
    by (simp add: request_on_1_def)
  have body_t: "body_text_content (req_body (request_on_1 c t p)) = t" for c t p
    by (simp add: request_on_1_def)
  have missing: "find (\<lambda>p. post_id p = 7) (posts db1) = None"
    by (simp add: db1_def)
  have found: "find (\<lambda>p. post_id p = Suc 0) (posts db1) = Some ?P"
    by (simp add: db1_def)
  have who: "caller codec (request_on_1 (Some ''bob'') t p) = Some 6"
            "caller codec (request_on_1 (Some ''alice'') t p) = Some 5" for t p
    by (simp_all add: caller_def example_defs req_get_Authorization_def)
  have next_id: "next_post_id db1 = 2"
    by (simp add: db1_def)
  note chk = createPost_parent_check
  show ?thesis
    using chk [of "request_on_1 (Some ''garbage'') ''hello'' (Some 7)" 7 db1 codec "\<lambda>d. d"]
      chk [of "request_on_1 (Some ''bob'') ''hello'' (Some 7)" 7 db1 codec "\<lambda>d. d"]
      chk [of "request_on_1 (Some ''bob'') ''reply'' (Some 1)" 1 db1 codec "\<lambda>d. d"]
      chk [of "request_on_1 (Some ''alice'') ''top'' None" 0 db1 codec "\<lambda>d. d"]
    by (simp add: bob alice body_p body_t missing found who next_id Let_def)
qed

section \<open>Modifying a post\<close>

text \<open>
  What \<open>update\<close> resolves to is an array, and an array is truthy whatever it holds: the
  \<open>else\<close> of \<open>if (updated)\<close> is never taken, and \<open>modifyPostById\<close> never answers
  \<open>Failed to update the post.\<close>
\<close>

lemma update_result_truthy: "truthy (js_update_result r)"
  by (cases r) simp

lemma modifyPostById_never_fails_update:
  "sent (modifyPostById extractUser env req d) \<noteq>
     Some \<lparr>status = 500, payload = Text ''Failed to update the post.''\<rparr>"
  by (simp add: modifyPostById_def store_defs express_defs Let_def split: option.splits)

text \<open>
  \<open>deletePostById\<close> tests \<open>count !== 0\<close> on the number \<open>destroy\<close> resolves to: when the
  post is gone by the time \<open>destroy\<close> runs, it answers 500.
\<close>

lemma deletePostById_zero_rows:
  "deletePostById codec concurrent_delete_1 (request_on_1 (Some ''alice'') [] None) db1 =
     \<lparr>store = db1\<lparr>posts := []\<rparr>,
      sent = Some \<lparr>status = 500, payload = Text ''Failed to destroy the post.''\<rparr>,
      ops = [Posts_findByPk 1, Posts_destroy 1], unhandled = None\<rparr>"
  by (simp add: deletePostById_def example_defs store_defs express_defs Let_def)

text \<open>
  Claim C4. In \<open>modifyPostById\<close>, an update that reports zero affected rows after the
  ownership check has passed is answered 500. The code does not: user 5 modifies their
  own post 1, another request deletes post 1 between the read and the update, the update
  resolves to \<open>[0, []]\<close>, which \<open>if (updated)\<close> takes for true, and the answer is 200.
\<close>

theorem modifyPostById_zero_rows_answers_200:
  "fst (models_posts_update ''edited'' 1 (incoming (concurrent_delete_1 db1))) = (0, [])
   \<and> js_update_result (0, []) = JS_array [JS_number 0, JS_array []]
   \<and> modifyPostById codec concurrent_delete_1 (request_on_1 (Some ''alice'') ''edited'' None) db1 =
       \<lparr>store = db1\<lparr>posts := []\<rparr>,
        sent = Some \<lparr>status = 200, payload = Text ''The message has been updated.''\<rparr>,
        ops = [Posts_findByPk 1, Posts_update 1 ''edited''], unhandled = None\<rparr>"
  by (simp add: modifyPostById_def example_defs store_defs express_defs Let_def)

theorem modifyPostById_zero_rows_answers_200_witness:
  "sent (modifyPostById codec concurrent_delete_1
           (request_on_1 (Some ''alice'') ''edited'' None) db1) =
     Some \<lparr>status = 200, payload = Text ''The message has been updated.''\<rparr>"
  using modifyPostById_zero_rows_answers_200 by simp

section \<open>Sharing and unsharing\<close>

lemma find_post_id: "find (\<lambda>p. post_id p = k) ps = Some P \<Longrightarrow> post_id P = k"
  by (auto simp: find_Some_iff)

text \<open>
  Claim C5, as stated: sharing post \<open>P\<close> as \<open>V\<close> and then unsharing it as \<open>V\<close> returns the
  Share Store to its state before the share, from every starting state. It does not from
  a state where \<open>V\<close> has shared \<open>P\<close> already: user 6 shares post 1 a second time (201),
  unshares it (200), and the row the store held before the share is gone with the new one.
\<close>

theorem share_unshare_counterexample:
  "sharedPosts db2 = [\<lparr>postId = 1, userId = Some 6\<rparr>]
   \<and> sent (sharePostById codec (\<lambda>d. d) (request_on_1 (Some ''bob'') [] None) db2) =
       Some \<lparr>status = 201, payload = Text ''Post shared.''\<rparr>
   \<and> sent (unsharePostById codec (request_on_1 (Some ''bob'') [] None)
         (store (sharePostById codec (\<lambda>d. d) (request_on_1 (Some ''bob'') [] None) db2))) =
       Some \<lparr>status = 200, payload = Text ''The post has been unshared.''\<rparr>
   \<and> sharedPosts (store (unsharePostById codec (request_on_1 (Some ''bob'') [] None)
         (store (sharePostById codec (\<lambda>d. d) (request_on_1 (Some ''bob'') [] None) db2)))) = []"
  by (simp add: sharePostById_def unsharePostById_def example_defs store_defs express_defs
      shared_by_def Let_def)

text \<open>
  Claim C5, amended. From every starting state in which the Share Store holds no row for
  the pair \<open>(P, V)\<close>, sharing \<open>P\<close> as the authenticated user \<open>V\<close> and then unsharing it as
  \<open>V\<close> returns the store, the Share Store with it, to its state before the share.
\<close>

theorem share_unshare_round_trip:
  assumes "authenticated extractUser req"
      and "filter (shared_by (params_id req) (caller extractUser req)) (sharedPosts d) = []"
  shows "store (unsharePostById extractUser req
                  (store (sharePostById extractUser (\<lambda>d. d) req d))) = d"
proof (cases "find (\<lambda>p. post_id p = params_id req) (posts d)")
  case None
  with assms show ?thesis
    by (simp add: sharePostById_def unsharePostById_def authenticated_def caller_def
        store_defs express_defs Let_def filter_empty_conv)
next
  case (Some P)
  then have "post_id P = params_id req"
    by (rule find_post_id)
  with Some assms show ?thesis
    by (simp add: sharePostById_def unsharePostById_def authenticated_def caller_def
        store_defs express_defs Let_def filter_empty_conv shared_by_def)
qed

theorem share_unshare_round_trip_witness:
  "store (unsharePostById codec (request_on_1 (Some ''bob'') [] None)
            (store (sharePostById codec (\<lambda>d. d) (request_on_1 (Some ''bob'') [] None) db1))) = db1
   \<and> sharedPosts (store (sharePostById codec (\<lambda>d. d) (request_on_1 (Some ''bob'') [] None) db1)) =
       [\<lparr>postId = 1, userId = Some 6\<rparr>]"
proof -
  let ?req = "request_on_1 (Some ''bob'') [] None"
  have auth: "authenticated codec ?req"
    by (simp add: authenticated_def example_defs req_get_Authorization_def)
  have fresh: "filter (shared_by (params_id ?req) (caller codec ?req)) (sharedPosts db1) = []"
    by (simp add: db1_def)
  have shared: "sharedPosts (store (sharePostById codec (\<lambda>d. d) ?req db1)) =
       [\<lparr>postId = 1, userId = Some 6\<rparr>]"
    by (simp add: sharePostById_def example_defs store_defs express_defs Let_def)
  show ?thesis
    using share_unshare_round_trip [OF auth fresh] shared by simp
qed

text \<open>
  Claim C6. \<open>unsharePostById\<close> never consults the Post Store. Given a valid credential,
  it deletes exactly the Share rows of the pair (path \<open>id\<close>, caller \<open>id\<close>) and nothing
  else; when there is no such row it answers 404, \<open>The post was not shared by the user
  before.\<close>, and 200 otherwise.
\<close>

theorem unsharePostById_deletes_the_pair:
  "list_all (\<lambda>op. \<not> is_posts_op op) (ops (unsharePostById extractUser req d))
   \<and> (authenticated extractUser req \<longrightarrow>
       (let p = params_id req; u = caller extractUser req;
            w = unsharePostById extractUser req d
        in store w = d\<lparr>sharedPosts := filter (\<lambda>r. \<not> shared_by p u r) (sharedPosts d)\<rparr>
         \<and> ops w = [SharedPost_destroy p u]
         \<and> unhandled w = None
         \<and> sent w =
             Some (if filter (shared_by p u) (sharedPosts d) = []
                   then \<lparr>status = 404,
                         payload = Text ''The post was not shared by the user before.''\<rparr>
                   else \<lparr>status = 200, payload = Text ''The post has been unshared.''\<rparr>)))"
  by (simp add: unsharePostById_def authenticated_def caller_def
        store_defs express_defs Let_def)

theorem unsharePostById_deletes_the_pair_witness:
  "store (unsharePostById codec (request_on_1 (Some ''bob'') [] None) db2) = db1
   \<and> sent (unsharePostById codec (request_on_1 (Some ''bob'') [] None) db2) =
       Some \<lparr>status = 200, payload = Text ''The post has been unshared.''\<rparr>
   \<and> ops (unsharePostById codec (request_on_1 (Some ''bob'') [] None) db2) =
       [SharedPost_destroy 1 (Some 6)]
   \<and> store (unsharePostById codec (request_on_1 (Some ''alice'') [] None) db2) = db2
   \<and> sent (unsharePostById codec (request_on_1 (Some ''alice'') [] None) db2) =
       Some \<lparr>status = 404, payload = Text ''The post was not shared by the user before.''\<rparr>
   \<and> ops (unsharePostById codec (request_on_1 (Some ''alice'') [] None) db2) =
       [SharedPost_destroy 1 (Some 5)]"
  using unsharePostById_deletes_the_pair [of codec "request_on_1 (Some ''bob'') [] None" db2]
    unsharePostById_deletes_the_pair [of codec "request_on_1 (Some ''alice'') [] None" db2]
  by (simp add: authenticated_def caller_def example_defs req_get_Authorization_def
      shared_by_def Let_def)

text \<open>
  Claim C7. \<open>sharePostById\<close> has no ownership check: for every authenticated caller,
  whoever wrote the post, a post that exists is shared, with exactly one new Share row
  (path \<open>id\<close>, caller \<open>id\<close>) and the answer 201; a post that does not exist is answered
  404 and nothing is inserted.
\<close>

theorem sharePostById_any_caller:
  assumes "authenticated extractUser req"
  shows "(find (\<lambda>p. post_id p = params_id req) (posts d) = None \<longrightarrow>
            sharePostById extractUser env req d =
              \<lparr>store = d,
               sent = Some \<lparr>status = 404,
                            payload = Error_message ''Parent with that id does not exist.''\<rparr>,
               ops = [Posts_findByPk (params_id req)], unhandled = None\<rparr>)
       \<and> (find (\<lambda>p. post_id p = params_id req) (posts d) = Some P \<longrightarrow>
            sharePostById extractUser env req d =
              \<lparr>store = (env d)\<lparr>sharedPosts := sharedPosts (env d) @
                         [\<lparr>postId = params_id req, userId = caller extractUser req\<rparr>]\<rparr>,
               sent = Some \<lparr>status = 201, payload = Text ''Post shared.''\<rparr>,
               ops = [Posts_findByPk (params_id req),
                      SharedPost_create (params_id req) (caller extractUser req)],
               unhandled = None\<rparr>)"
proof (intro conjI impI)
  assume "find (\<lambda>p. post_id p = params_id req) (posts d) = None"
  with assms show "sharePostById extractUser env req d =
              \<lparr>store = d,
               sent = Some \<lparr>status = 404,
                            payload = Error_message ''Parent with that id does not exist.''\<rparr>,
               ops = [Posts_findByPk (params_id req)], unhandled = None\<rparr>"
    by (simp add: sharePostById_def authenticated_def store_defs express_defs Let_def)
next
  assume found: "find (\<lambda>p. post_id p = params_id req) (posts d) = Some P"
  then have "post_id P = params_id req"
    by (rule find_post_id)
  with found assms show "sharePostById extractUser env req d =
              \<lparr>store = (env d)\<lparr>sharedPosts := sharedPosts (env d) @
                         [\<lparr>postId = params_id req, userId = caller extractUser req\<rparr>]\<rparr>,
               sent = Some \<lparr>status = 201, payload = Text ''Post shared.''\<rparr>,
               ops = [Posts_findByPk (params_id req),
                      SharedPost_create (params_id req) (caller extractUser req)],
               unhandled = None\<rparr>"
    by (simp add: sharePostById_def authenticated_def caller_def store_defs express_defs Let_def)
qed

text \<open>
  User 5 shares post 1, which is their own; user 6 shares it too; on the empty store the
  same request is answered 404.
\<close>

theorem sharePostById_any_caller_witness:
  "sharePostById codec (\<lambda>d. d) (request_on_1 (Some ''alice'') [] None) db1 =
     \<lparr>store = db1\<lparr>sharedPosts := [\<lparr>postId = 1, userId = Some 5\<rparr>]\<rparr>,
      sent = Some \<lparr>status = 201, payload = Text ''Post shared.''\<rparr>,
      ops = [Posts_findByPk 1, SharedPost_create 1 (Some 5)], unhandled = None\<rparr>
   \<and> sharePostById codec (\<lambda>d. d) (request_on_1 (Some ''bob'') [] None) db1 =
     \<lparr>store = db2,
      sent = Some \<lparr>status = 201, payload = Text ''Post shared.''\<rparr>,
      ops = [Posts_findByPk 1, SharedPost_create 1 (Some 6)], unhandled = None\<rparr>
   \<and> sharePostById codec (\<lambda>d. d) (request_on_1 (Some ''bob'') [] None) db0 =
     \<lparr>store = db0,
      sent = Some \<lparr>status = 404,
                   payload = Error_message ''Parent with that id does not exist.''\<rparr>,
      ops = [Posts_findByPk 1], unhandled = None\<rparr>"
proof -
  let ?P = "\<lparr>post_id = 1, text_content = ''first'', author = Some 5, parent = None\<rparr>"
  have auth: "authenticated codec (request_on_1 (Some ''alice'') [] None)"
             "authenticated codec (request_on_1 (Some ''bob'') [] None)"
    by (simp_all add: authenticated_def example_defs req_get_Authorization_def)
  note any = sharePostById_any_caller
  show ?thesis
    using any [OF auth(1), of db1 "\<lambda>d. d" ?P] any [OF auth(2), of db1 "\<lambda>d. d" ?P]
      any [OF auth(2), of db0 "\<lambda>d. d" ?P]
    by (simp add: caller_def example_defs db0_def req_get_Authorization_def)
qed

text \<open>
  Claim C9. \<open>sharePostById\<close> does nothing against duplicates: for every request with a
  usable identity and an existing target post it issues the insert of the row
  (\<open>postId\<close>, \<open>userId\<close>), whatever the Share Store holds; the row is appended, and the
  store holds it once more than before, also when it held it already.
\<close>

theorem sharePostById_inserts_unconditionally:
  assumes "authenticated extractUser req"
      and "find (\<lambda>p. post_id p = params_id req) (posts d) = Some P"
  shows "let row = \<lparr>postId = params_id req, userId = caller extractUser req\<rparr>;
             w = sharePostById extractUser env req d
         in ops w = [Posts_findByPk (params_id req),
                     SharedPost_create (params_id req) (caller extractUser req)]
          \<and> sharedPosts (store w) = sharedPosts (env d) @ [row]
          \<and> count_list (sharedPosts (store w)) row =
              Suc (count_list (sharedPosts (env d)) row)"
proof -
  from assms(2) have "post_id P = params_id req"
    by (rule find_post_id)
  with assms show ?thesis
    by (simp add: sharePostById_def authenticated_def caller_def store_defs express_defs Let_def)
qed

text \<open>User 6 has shared post 1 and shares it again: the store holds the row twice.\<close>

theorem sharePostById_inserts_unconditionally_witness:
  "ops (sharePostById codec (\<lambda>d. d) (request_on_1 (Some ''bob'') [] None) db2) =
     [Posts_findByPk 1, SharedPost_create 1 (Some 6)]
   \<and> sharedPosts (store (sharePostById codec (\<lambda>d. d) (request_on_1 (Some ''bob'') [] None) db2)) =
       [\<lparr>postId = 1, userId = Some 6\<rparr>, \<lparr>postId = 1, userId = Some 6\<rparr>]
   \<and> count_list
       (sharedPosts (store (sharePostById codec (\<lambda>d. d) (request_on_1 (Some ''bob'') [] None) db2)))
       \<lparr>postId = 1, userId = Some 6\<rparr> = 2"
proof -
  let ?P = "\<lparr>post_id = 1, text_content = ''first'', author = Some 5, parent = None\<rparr>"
  let ?req = "request_on_1 (Some ''bob'') [] None"
  have auth: "authenticated codec ?req"
    by (simp add: authenticated_def example_defs req_get_Authorization_def)
  have found: "find (\<lambda>p. post_id p = params_id ?req) (posts db2) = Some ?P"
    by (simp add: example_defs)
  show ?thesis
    using sharePostById_inserts_unconditionally [OF auth found, of "\<lambda>d. d"]
    by (simp add: caller_def example_defs req_get_Authorization_def Let_def)
qed

section \<open>What the handlers write\<close>

text \<open>
  Claim C8. The \<open>author\<close> of a post is written once, by \<open>createPost\<close>, from the decoded
  identity, and no handler writes it again. Each handler leaves the posts of the store it
  found (\<open>d\<close>, or \<open>env d\<close> when it was suspended before its write) as follows:
  \<open>createPost\<close> appends one row whose author is the caller's \<open>id\<close>; \<open>modifyPostById\<close>
  replaces the \<open>text_content\<close> of the rows with the path \<open>id\<close>, so every row keeps its
  \<open>id\<close>, \<open>author\<close> and \<open>parent\<close>; \<open>deletePostById\<close> removes rows; the other three leave
  the posts as they are.
\<close>

theorem author_written_once:
  "(let w = createPost extractUser env req d
    in posts (store w) = posts d \<or>
       posts (store w) = posts (env d) @
         [\<lparr>post_id = next_post_id (env d), text_content = body_text_content (req_body req),
           author = caller extractUser req, parent = body_parent (req_body req)\<rparr>])
 \<and> (let w = modifyPostById extractUser env req d
    in posts (store w) = posts d \<or>
       posts (store w) =
         map (\<lambda>p. if post_id p = params_id req
                   then p\<lparr>text_content := body_text_content (req_body req)\<rparr> else p)
           (posts (env d)))
 \<and> (let w = modifyPostById extractUser env req d
    in map columns (posts (store w)) = map columns (posts d) \<or>
       map columns (posts (store w)) = map columns (posts (env d)))
 \<and> (let w = deletePostById extractUser env req d
    in posts (store w) = posts d \<or>
       posts (store w) = filter (\<lambda>p. post_id p \<noteq> params_id req) (posts (env d)))
 \<and> (let w = sharePostById extractUser env req d
    in posts (store w) = posts d \<or> posts (store w) = posts (env d))
 \<and> posts (store (unsharePostById extractUser req d)) = posts d
 \<and> posts (store (getPostById req d)) = posts d"
proof (intro conjI)
  show "let w = createPost extractUser env req d
    in posts (store w) = posts d \<or>
       posts (store w) = posts (env d) @
         [\<lparr>post_id = next_post_id (env d), text_content = body_text_content (req_body req),
           author = caller extractUser req, parent = body_parent (req_body req)\<rparr>]"
    by (simp add: createPost_def caller_def store_defs express_defs Let_def
        split: option.splits)
  show "let w = modifyPostById extractUser env req d
    in posts (store w) = posts d \<or>
       posts (store w) =
         map (\<lambda>p. if post_id p = params_id req
                   then p\<lparr>text_content := body_text_content (req_body req)\<rparr> else p)
           (posts (env d))"
    by (simp add: modifyPostById_def store_defs express_defs Let_def split: option.splits)
  show "let w = modifyPostById extractUser env req d
    in map columns (posts (store w)) = map columns (posts d) \<or>
       map columns (posts (store w)) = map columns (posts (env d))"
    by (simp add: modifyPostById_def store_defs express_defs Let_def columns_def comp_def
        split: option.splits)
  show "let w = deletePostById extractUser env req d
    in posts (store w) = posts d \<or>
       posts (store w) = filter (\<lambda>p. post_id p \<noteq> params_id req) (posts (env d))"
    by (simp add: deletePostById_def store_defs express_defs Let_def split: option.splits)
  show "let w = sharePostById extractUser env req d
    in posts (store w) = posts d \<or> posts (store w) = posts (env d)"
    by (simp add: sharePostById_def store_defs express_defs Let_def split: option.splits)
  show "posts (store (unsharePostById extractUser req d)) = posts d"
    by (simp add: unsharePostById_def store_defs express_defs Let_def)
  show "posts (store (getPostById req d)) = posts d"
    by (simp add: getPostById_def store_defs express_defs split: option.splits)
qed

text \<open>
  User 5 edits post 1: the row keeps its author and parent and has the new text. User 6
  creates a reply to it: the new row's author is 6 and post 1 is as it was.
\<close>

theorem author_written_once_witness:
  "posts (store (modifyPostById codec (\<lambda>d. d) (request_on_1 (Some ''alice'') ''edited'' None) db1)) =
     [\<lparr>post_id = 1, text_content = ''edited'', author = Some 5, parent = None\<rparr>]
   \<and> posts (store (createPost codec (\<lambda>d. d) (request_on_1 (Some ''bob'') ''reply'' (Some 1)) db1)) =
     [\<lparr>post_id = 1, text_content = ''first'', author = Some 5, parent = None\<rparr>,
      \<lparr>post_id = 2, text_content = ''reply'', author = Some 6, parent = Some 1\<rparr>]"
proof -
  have edited: "posts (store (modifyPostById codec (\<lambda>d. d)
                  (request_on_1 (Some ''alice'') ''edited'' None) db1)) \<noteq> posts db1"
    by (simp add: modifyPostById_def example_defs store_defs express_defs Let_def)
  have created: "posts (store (createPost codec (\<lambda>d. d)
                  (request_on_1 (Some ''bob'') ''reply'' (Some 1)) db1)) \<noteq> posts db1"
    by (simp add: createPost_def example_defs store_defs express_defs Let_def)
  show ?thesis
    using author_written_once
            [of codec "\<lambda>d. d" "request_on_1 (Some ''alice'') ''edited'' None" db1]
          author_written_once
            [of codec "\<lambda>d. d" "request_on_1 (Some ''bob'') ''reply'' (Some 1)" db1]
          edited created
    by (simp add: Let_def caller_def example_defs req_get_Authorization_def)
qed

text \<open>
  Claim C10. On every path \<open>deletePostById\<close> issues no call on the Share Store: its store
  calls are the read of the post with the path \<open>id\<close> and the delete of the rows with that
  \<open>id\<close>. The store it leaves is the one it found, or the one it found without the posts
  of that \<open>id\<close>: every Share row, also one that refers to the deleted post, and every
  other post is as it was.
\<close>

theorem deletePostById_frame:
  "(let w = deletePostById extractUser env req d
    in list_all (\<lambda>op. \<not> is_sharedPost_op op) (ops w)
     \<and> list_all (\<lambda>op. op = Posts_findByPk (params_id req) \<or>
                      op = Posts_destroy (params_id req)) (ops w)
     \<and> (store w = d \<or>
        store w = (env d)\<lparr>posts := filter (\<lambda>p. post_id p \<noteq> params_id req) (posts (env d))\<rparr>)
     \<and> (sharedPosts (store w) = sharedPosts d \<or> sharedPosts (store w) = sharedPosts (env d))
     \<and> (filter (\<lambda>p. post_id p \<noteq> params_id req) (posts (store w)) =
          filter (\<lambda>p. post_id p \<noteq> params_id req) (posts d) \<or>
        filter (\<lambda>p. post_id p \<noteq> params_id req) (posts (store w)) =
          filter (\<lambda>p. post_id p \<noteq> params_id req) (posts (env d))))"
  by (simp add: deletePostById_def store_defs express_defs Let_def split: option.splits)

text \<open>User 5 deletes post 1, which user 6 has shared: the Share row stays.\<close>

theorem deletePostById_frame_witness:
  "store (deletePostById codec (\<lambda>d. d) (request_on_1 (Some ''alice'') [] None) db2) =
     \<lparr>posts = [], sharedPosts = [\<lparr>postId = 1, userId = Some 6\<rparr>], next_post_id = 2\<rparr>"
proof -
  have deleted: "store (deletePostById codec (\<lambda>d. d)
                   (request_on_1 (Some ''alice'') [] None) db2) \<noteq> db2"
    by (simp add: deletePostById_def example_defs store_defs express_defs Let_def)
  show ?thesis
    using deletePostById_frame [of codec "\<lambda>d. d" "request_on_1 (Some ''alice'') [] None" db2]
      deleted
    by (simp add: Let_def example_defs)
qed

end
